theory Spec2Isabelle
  imports
    Main
    "HOL-Library.AList"
    "HOL-Library.Char_ord"
    "HOL-Library.List_Lexorder"
    "HOL-Library.Product_Lexorder"
begin

section \<open>Port identifiers, cell values and errors\<close>

text \<open>
  A port identifier is a tuple of tokens, each a string or an integer
  (\<^verbatim>\<open>('foo', 0)\<close>). Python 2 orders every integer before every string, integers
  by value, strings by character code, and tuples lexicographically; this is the order
  \<^verbatim>\<open>DataFrame.sort\<close> puts an index in.
\<close>

datatype token = TInt int | TStr string

type_synonym port = "token list"

instantiation token :: linorder
begin

fun less_eq_token :: "token \<Rightarrow> token \<Rightarrow> bool" where
  "less_eq_token (TInt a) (TInt b) = (a \<le> b)"
| "less_eq_token (TInt a) (TStr t) = True"
| "less_eq_token (TStr s) (TInt b) = False"
| "less_eq_token (TStr s) (TStr t) = (s \<le> t)"

definition less_token :: "token \<Rightarrow> token \<Rightarrow> bool" where
  "less_token x y = (x \<le> y \<and> \<not> y \<le> x)"

instance
proof
  fix x y z :: token
  show "(x < y) = (x \<le> y \<and> \<not> y \<le> x)"
    by (simp add: less_token_def)
  show "x \<le> x"
    by (cases x) simp_all
  show "x \<le> y \<Longrightarrow> y \<le> z \<Longrightarrow> x \<le> z"
    by (cases x; cases y; cases z) auto
  show "x \<le> y \<Longrightarrow> y \<le> x \<Longrightarrow> x = y"
    by (cases x; cases y) auto
  show "x \<le> y \<or> y \<le> x"
    by (cases x; cases y) auto
qed

end

text \<open>
  A cell of a DataFrame: unset (\<^verbatim>\<open>NaN\<close>), an integer or a string. The attribute
  values the code compares against are \<^verbatim>\<open>'in'\<close>, \<^verbatim>\<open>'out'\<close>, interface numbers
  and \<^verbatim>\<open>0\<close>.
\<close>

datatype val = NaN | VInt int | VStr string

text \<open>
  One constructor for each place where the source raises. The assertions of
  \<^verbatim>\<open>pattern.py\<close> raise \<^verbatim>\<open>AssertionError\<close>, the explicit raises
  \<^verbatim>\<open>ValueError\<close>; the constructor names say which check failed.
  \<^item> \<open>MissingColumns\<close>: \<^verbatim>\<open>assert set(columns).issuperset(['interface', 'io', 'type'])\<close>
  \<^item> \<open>DuplicateIdentifier\<close>: \<^verbatim>\<open>ValueError('Duplicate interface index entries detected.')\<close>,
    \<^verbatim>\<open>ValueError('Duplicate pattern entries detected.')\<close>, and a selector that expands
    with duplicates
  \<^item> \<open>FanIn\<close>: \<^verbatim>\<open>ValueError('Fan-in pattern entries detected.')\<close>
  \<^item> \<open>AmbiguousSelector\<close>: \<^verbatim>\<open>ValueError('cannot create new rows for ambiguous selector')\<close>
  \<^item> \<open>ValueShape\<close>: \<^verbatim>\<open>ValueError('cannot assign specified value')\<close>, and a value the
    DataFrame constructor cannot lay out
  \<^item> \<open>Disjointness\<close>: \<^verbatim>\<open>assert self.sel.are_disjoint(selectors)\<close>
  \<^item> \<open>NotInInterfaces\<close>: \<^verbatim>\<open>assert self.in_interfaces(key[0])\<close> (and \<^verbatim>\<open>key[1]\<close>)
  \<^item> \<open>Direction\<close>: \<^verbatim>\<open>assert self.which_int(key[0]) != self.which_int(key[1])\<close>, and
    \<^verbatim>\<open>ValueError("All ports must have their 'io' attribute set.")\<close>
  \<^item> \<open>SameInterface\<close>: \<^verbatim>\<open>assert src_int != dest_int\<close>
  \<^item> \<open>UnknownInterface\<close>: \<^verbatim>\<open>assert src_int in self.interface.interface_ids\<close>
  \<^item> \<open>NoMatch\<close>: the failure of \<^verbatim>\<open>get_index\<close>, which both callers catch
  \<^item> \<open>KeyError\<close>, \<open>IndexError\<close>, \<open>TypeError\<close>: raised by Python itself
\<close>

datatype error =
    MissingColumns
  | DuplicateIdentifier
  | FanIn
  | AmbiguousSelector
  | ValueShape
  | Disjointness
  | NotInInterfaces
  | Direction
  | SameInterface
  | UnknownInterface
  | NoMatch
  | KeyError
  | IndexError
  | TypeError

section \<open>DataFrames\<close>

text \<open>
  A \<^verbatim>\<open>pandas.DataFrame\<close> as the code uses it: the column names and the rows in index
  order, each row its index label with the cells that are set (a cell that is not
  listed reads \<open>NaN\<close>).
\<close>

type_synonym row = "(string \<times> val) list"

record 'k frame =
  columns :: "string list"
  rows :: "('k \<times> row) list"

definition index :: "'k frame \<Rightarrow> 'k list" where
  "index f = map fst (rows f)"

definition cell :: "row \<Rightarrow> string \<Rightarrow> val" where
  "cell r c = (case map_of r c of Some v \<Rightarrow> v | None \<Rightarrow> NaN)"

text \<open>\<^verbatim>\<open>pd.DataFrame(index=idx, columns=columns)\<close>: every cell unset.\<close>

definition empty_frame :: "'k list \<Rightarrow> string list \<Rightarrow> 'k frame" where
  "empty_frame idx cols = \<lparr>columns = cols, rows = map (\<lambda>k. (k, [])) idx\<rparr>"

text \<open>
  \<^verbatim>\<open>pd.DataFrame(data=data, index=idx)\<close> for a dict of scalars: one column for each key,
  the same cells in every row.
\<close>

definition dict_frame :: "row \<Rightarrow> 'k list \<Rightarrow> 'k frame" where
  "dict_frame d idx = \<lparr>columns = remdups (map fst d), rows = map (\<lambda>k. (k, d)) idx\<rparr>"

text \<open>\<^verbatim>\<open>df[k].ix[idx] = v\<close>: \<^verbatim>\<open>df[k]\<close> raises \<^verbatim>\<open>KeyError\<close> for a missing column.\<close>

definition set_column :: "'k frame \<Rightarrow> string \<Rightarrow> 'k list \<Rightarrow> val \<Rightarrow> error + 'k frame" where
  "set_column f k idx v =
     (if k \<in> set (columns f)
      then Inr (f\<lparr>rows := map (\<lambda>(key, r). if key \<in> set idx then (key, AList.update k v r)
                                         else (key, r)) (rows f)\<rparr>)
      else Inl KeyError)"

text \<open>
  \<^verbatim>\<open>for k, v in data.iteritems(): self.data[k].ix[idx] = v\<close>. The loop stops at the first
  missing column; the columns written before it stay written, so the error carries the
  frame as it is then.
\<close>

fun set_items :: "'k frame \<Rightarrow> 'k list \<Rightarrow> row \<Rightarrow> (error \<times> 'k frame) + 'k frame" where
  "set_items f idx [] = Inr f"
| "set_items f idx ((k, v) # kvs) =
     (case set_column f k idx v of
        Inl e \<Rightarrow> Inl (e, f)
      | Inr f' \<Rightarrow> set_items f' idx kvs)"

text \<open>\<^verbatim>\<open>df.append(other)\<close>: the rows of both, the columns of both.\<close>

definition append :: "'k frame \<Rightarrow> 'k frame \<Rightarrow> 'k frame" where
  "append f g =
     \<lparr>columns = columns f @ filter (\<lambda>c. c \<notin> set (columns f)) (columns g),
      rows = rows f @ rows g\<rparr>"

text \<open>\<^verbatim>\<open>df.sort(inplace=True)\<close> with no column given sorts the rows by index label.\<close>

definition sort_frame :: "('k::linorder) frame \<Rightarrow> 'k frame" where
  "sort_frame f = f\<lparr>rows := sort_key fst (rows f)\<rparr>"

text \<open>\<^verbatim>\<open>df[mask]\<close>: the rows a predicate on the row's cells keeps.\<close>

definition where_rows :: "(row \<Rightarrow> bool) \<Rightarrow> 'k frame \<Rightarrow> 'k frame" where
  "where_rows P f = f\<lparr>rows := filter (\<lambda>(k, r). P r) (rows f)\<rparr>"

text \<open>\<^verbatim>\<open>df.select(f)\<close>: the rows a predicate on the index label keeps.\<close>

definition select_rows :: "('k \<Rightarrow> bool) \<Rightarrow> 'k frame \<Rightarrow> 'k frame" where
  "select_rows P f = f\<lparr>rows := filter (\<lambda>(k, r). P k) (rows f)\<rparr>"

text \<open>\<^verbatim>\<open>df.drop(labels, inplace=True)\<close>: the rows whose label is not among those given.\<close>

definition drop :: "'k frame \<Rightarrow> 'k list \<Rightarrow> 'k frame" where
  "drop f labels = f\<lparr>rows := filter (\<lambda>(k, r). k \<notin> set labels) (rows f)\<rparr>"

text \<open>\<^verbatim>\<open>idx.has_duplicates or len(idx.unique()) < len(idx)\<close>\<close>

definition index_has_duplicates :: "'k list \<Rightarrow> bool" where
  "index_has_duplicates idx = (\<not> distinct idx)"

definition has_duplicates :: "'k list \<Rightarrow> bool" where
  "has_duplicates idx = (index_has_duplicates idx \<or> length (remdups idx) < length idx)"

section \<open>The addressing collaborator\<close>

text \<open>
  Modelled from the spec: \<^verbatim>\<open>plsel.PathLikeSelector\<close> is imported by
  \<^verbatim>\<open>pattern.py\<close> and is not among the sources. A selector is taken resolved: the
  sequence of port identifiers it expands to, in the order of the expansion (section 4.1
  allows a "pre-resolved identifier sequence" wherever a selector is). The selector
  \<^verbatim>\<open>'/foo[0:2]'\<close> is \<open>[[TStr ''foo'', TInt 0], [TStr ''foo'', TInt 1]]\<close>. Such a
  selector is never ambiguous. Section 6 gives the operations:
  \<^item> \<^verbatim>\<open>are_disjoint(selectors)\<close>: no identifier is comprised by two of the selectors;
  \<^item> \<^verbatim>\<open>make_index(selector, names)\<close>: the "ordered duplicate-checked identifier
    sequence", which fails when the expansion has duplicates;
  \<^item> \<^verbatim>\<open>select(table, selector)\<close>: the rows of the table the selector matches;
  \<^item> \<^verbatim>\<open>get_index(table, selector, names)\<close>: the "matching sub-index, fails if
    unresolvable", that is, when no row matches.
  The combination \<^verbatim>\<open>a+b\<close> of two selectors matches the concatenated identifiers of
  their product (the edge keys from every port of \<^verbatim>\<open>a\<close> to every port of
  \<^verbatim>\<open>b\<close>), \<^verbatim>\<open>a.+b\<close> those of their elementwise pairing, which needs both of equal
  length.
\<close>

type_synonym selector = "port list"

fun are_disjoint :: "selector list \<Rightarrow> bool" where
  "are_disjoint [] = True"
| "are_disjoint (s # ss) = (list_all (\<lambda>t. list_all (\<lambda>x. x \<notin> set t) s) ss \<and> are_disjoint ss)"

definition make_index :: "'k list \<Rightarrow> error + 'k list" where
  "make_index sel = (if distinct sel then Inr sel else Inl DuplicateIdentifier)"

definition select :: "'k frame \<Rightarrow> 'k list \<Rightarrow> 'k frame" where
  "select f sel = select_rows (\<lambda>k. k \<in> set sel) f"

definition get_index :: "'k frame \<Rightarrow> 'k list \<Rightarrow> error + 'k list" where
  "get_index f sel =
     (let idx = index (select f sel) in if idx = [] then Inl NoMatch else Inr idx)"

definition sel_product :: "selector \<Rightarrow> selector \<Rightarrow> (port \<times> port) list" where
  "sel_product a b = List.product a b"

definition sel_concat :: "selector \<Rightarrow> selector \<Rightarrow> error + (port \<times> port) list" where
  "sel_concat a b = (if length a = length b then Inr (zip a b) else Inl AmbiguousSelector)"

section \<open>Assigned values\<close>

text \<open>
  The value on the right of \<^verbatim>\<open>obj[key] = value\<close>: \<^verbatim>\<open>None\<close>, a scalar, a dict from
  column names to scalars, or a sequence of scalars.
\<close>

datatype pyvalue = NoneV | Scalar val | Mapping row | OrderedValues "val list"

text \<open>A dict comprehension: a later pair with the same key replaces the earlier one.\<close>

definition dict :: "row \<Rightarrow> row" where
  "dict kvs = fold (\<lambda>(k, v). AList.update k v) kvs []"

text \<open>
  The conversion of the assigned value to a dict, written out twice in the source
  (\<^verbatim>\<open>Interface.__setitem__\<close>, \<^verbatim>\<open>Pattern.__setitem__\<close>) with the same branches.
  \<open>key_cols\<close> are the column names given after the selectors in the key,
  \<open>frame_cols\<close> is \<^verbatim>\<open>self.data.columns\<close>; \<^verbatim>\<open>self.data.columns[0]\<close> raises
  \<^verbatim>\<open>IndexError\<close> when there is no column.
\<close>

definition to_dict :: "string list \<Rightarrow> string list \<Rightarrow> pyvalue \<Rightarrow> error + row" where
  "to_dict key_cols frame_cols v =
     (if key_cols \<noteq> [] then
        (case v of
           Scalar x \<Rightarrow> Inr (dict (map (\<lambda>k. (k, x)) key_cols))
         | Mapping m \<Rightarrow> Inr m
         | OrderedValues xs \<Rightarrow>
             if length xs \<le> length key_cols then Inr (dict (zip key_cols xs))
             else Inl ValueShape
         | NoneV \<Rightarrow> Inl ValueShape)
      else
        (case v of
           Scalar x \<Rightarrow> (case frame_cols of [] \<Rightarrow> Inl IndexError | c # _ \<Rightarrow> Inr [(c, x)])
         | Mapping m \<Rightarrow> Inr m
         | OrderedValues xs \<Rightarrow>
             if length xs \<le> length frame_cols then Inr (dict (zip frame_cols xs))
             else Inl ValueShape
         | NoneV \<Rightarrow> Inl ValueShape))"

text \<open>
  The \<^verbatim>\<open>try: get_index ... except: try: make_index ... except: raise ValueError\<close> block
  at the head of both \<^verbatim>\<open>__setitem__\<close> methods: the index to write to, and whether its
  rows exist already (\<^verbatim>\<open>found\<close>).
\<close>

definition resolve :: "'k frame \<Rightarrow> 'k list \<Rightarrow> error + ('k list \<times> bool)" where
  "resolve f sel =
     (case get_index f sel of
        Inr idx \<Rightarrow> Inr (idx, True)
      | Inl _ \<Rightarrow>
          (case make_index sel of
             Inr idx \<Rightarrow> Inr (idx, False)
           | Inl _ \<Rightarrow> Inl AmbiguousSelector))"

section \<open>Interface\<close>

text \<open>
  An \<^verbatim>\<open>Interface\<close> object is its DataFrame \<^verbatim>\<open>self.data\<close>, indexed by port
  identifier.
\<close>

type_synonym Interface = "port frame"

definition required_columns :: "string list" where
  "required_columns = [''interface'', ''io'', ''type'']"

definition Interface_validate_index :: "port list \<Rightarrow> error + unit" where
  "Interface_validate_index idx =
     (if has_duplicates idx then Inl DuplicateIdentifier else Inr ())"

definition Interface_init :: "selector \<Rightarrow> string list \<Rightarrow> error + Interface" where
  "Interface_init selector cols =
     (if \<not> set required_columns \<subseteq> set cols then Inl MissingColumns
      else
        (case make_index selector of
           Inl e \<Rightarrow> Inl e
         | Inr idx \<Rightarrow>
             (case Interface_validate_index idx of
                Inl e \<Rightarrow> Inl e
              | Inr _ \<Rightarrow> Inr (empty_frame idx cols))))"

text \<open>\<^verbatim>\<open>Interface.__getitem__\<close> with a selector alone: the rows it matches, none when nothing does.\<close>

definition Interface_getitem :: "Interface \<Rightarrow> selector \<Rightarrow> Interface" where
  "Interface_getitem i key = select i key"

text \<open>
  \<^verbatim>\<open>Interface.__setitem__\<close>; the key is the selector and the column names that follow
  it (none when the key is the selector alone).
\<close>

definition Interface_setitem ::
  "Interface \<Rightarrow> selector \<Rightarrow> string list \<Rightarrow> pyvalue \<Rightarrow> (error \<times> Interface) + Interface" where
  "Interface_setitem i selector key_cols v =
     (case resolve i selector of
        Inl e \<Rightarrow> Inl (e, i)
      | Inr (idx, found) \<Rightarrow>
          (case to_dict key_cols (columns i) v of
             Inl e \<Rightarrow> Inl (e, i)
           | Inr d \<Rightarrow>
               if found then set_items i idx d
               else Inr (sort_frame (append i (dict_frame d idx)))))"

definition interface_ids :: "Interface \<Rightarrow> val set" where
  "interface_ids i = set (map (\<lambda>(k, r). cell r ''interface'') (rows i))"

text \<open>
  \<^verbatim>\<open>which_int\<close>: \<^verbatim>\<open>self[s, 'interface']\<close> raises \<^verbatim>\<open>KeyError\<close> when the table has
  no such column, which the method catches.
\<close>

definition which_int :: "Interface \<Rightarrow> selector \<Rightarrow> val set" where
  "which_int i s =
     (if ''interface'' \<notin> set (columns i) then {}
      else set (map (\<lambda>(k, r). cell r ''interface'') (rows (select i s))) - {NaN})"

section \<open>Pattern\<close>

record pattern =
  interface :: Interface
  data :: "(port \<times> port) frame"

text \<open>
  The loop \<^verbatim>\<open>for i, s in enumerate(selectors): self.interface[s, 'interface'] = i\<close>.
\<close>

fun set_interface_ids :: "Interface \<Rightarrow> nat \<Rightarrow> selector list \<Rightarrow> error + Interface" where
  "set_interface_ids i n [] = Inr i"
| "set_interface_ids i n (s # ss) =
     (case Interface_setitem i s [''interface''] (Scalar (VInt (int n))) of
        Inl (e, _) \<Rightarrow> Inl e
      | Inr i' \<Rightarrow> set_interface_ids i' (Suc n) ss)"

definition Pattern_init :: "selector list \<Rightarrow> string list \<Rightarrow> error + pattern" where
  "Pattern_init selectors cols =
     (if \<not> are_disjoint selectors then Inl Disjointness
      else
        (case Interface_init (concat selectors) required_columns of
           Inl e \<Rightarrow> Inl e
         | Inr i \<Rightarrow>
             (case set_interface_ids i 0 selectors of
                Inl e \<Rightarrow> Inl e
              | Inr i' \<Rightarrow> Inr \<lparr>interface = i', data = empty_frame [] cols\<rparr>)))"

definition Pattern_len :: "pattern \<Rightarrow> nat" where
  "Pattern_len p = length (rows (data p))"

definition clear :: "pattern \<Rightarrow> pattern" where
  "clear p = p\<lparr>data := drop (data p) (index (data p))\<rparr>"

text \<open>
  \<^verbatim>\<open>Pattern.__validate_index__\<close>. \<^verbatim>\<open>split_multiindex\<close> cuts every edge key into
  its source and its destination identifier.
\<close>

definition split_multiindex :: "(port \<times> port) list \<Rightarrow> port list \<times> port list" where
  "split_multiindex idx = (map fst idx, map snd idx)"

definition Pattern_validate_index :: "(port \<times> port) list \<Rightarrow> error + unit" where
  "Pattern_validate_index idx =
     (if has_duplicates idx then Inl DuplicateIdentifier
      else
        (case split_multiindex idx of
           (from_idx, to_idx) \<Rightarrow>
             if has_duplicates to_idx then Inl FanIn else Inr ()))"

definition in_interfaces :: "pattern \<Rightarrow> selector \<Rightarrow> bool" where
  "in_interfaces p selector = (0 < length (rows (Interface_getitem (interface p) selector)))"

definition get_conns :: "pattern \<Rightarrow> (port \<times> port) list" where
  "get_conns p = index (data p)"

text \<open>
  \<^verbatim>\<open>Pattern.__setitem__\<close>. The key is the source selector, the destination selector
  and the column names that follow them. An exception leaves the object as it is when
  it is raised, so the error carries the pattern in that state.
\<close>

definition Pattern_setitem ::
  "pattern \<Rightarrow> selector \<times> selector \<times> string list \<Rightarrow> pyvalue \<Rightarrow> (error \<times> pattern) + pattern" where
  "Pattern_setitem p key v =
     (case key of (key0, key1, key_cols) \<Rightarrow>
        if \<not> in_interfaces p key0 then Inl (NotInInterfaces, p)
        else if \<not> in_interfaces p key1 then Inl (NotInInterfaces, p)
        else if \<not> which_int (interface p) key0 \<noteq> which_int (interface p) key1
          then Inl (Direction, p)
        else
          (case resolve (data p) (sel_product key0 key1) of
             Inl e \<Rightarrow> Inl (e, p)
           | Inr (idx, found) \<Rightarrow>
               (case Interface_setitem (interface p) key0 [''io''] (Scalar (VStr ''in'')) of
                  Inl (e, i1) \<Rightarrow> Inl (e, p\<lparr>interface := i1\<rparr>)
                | Inr i1 \<Rightarrow>
                    (case Interface_setitem i1 key1 [''io''] (Scalar (VStr ''out'')) of
                       Inl (e, i2) \<Rightarrow> Inl (e, p\<lparr>interface := i2\<rparr>)
                     | Inr i2 \<Rightarrow>
                         (case to_dict key_cols (columns (data p)) v of
                            Inl e \<Rightarrow> Inl (e, p\<lparr>interface := i2\<rparr>)
                          | Inr d \<Rightarrow>
                              if found then
                                (case set_items (data p) idx d of
                                   Inl (e, f) \<Rightarrow> Inl (e, p\<lparr>interface := i2, data := f\<rparr>)
                                 | Inr f \<Rightarrow> Inr (p\<lparr>interface := i2, data := f\<rparr>))
                              else
                                Inr (p\<lparr>interface := i2,
                                       data := sort_frame
                                         (append (data p) (dict_frame d idx))\<rparr>))))))"

text \<open>A sequence of writes, each on the pattern the one before it left.\<close>

fun setitems ::
  "pattern \<Rightarrow> ((selector \<times> selector \<times> string list) \<times> pyvalue) list
     \<Rightarrow> (error \<times> pattern) + pattern" where
  "setitems p [] = Inr p"
| "setitems p ((key, v) # ws) =
     (case Pattern_setitem p key v of
        Inl e \<Rightarrow> Inl e
      | Inr p' \<Rightarrow> setitems p' ws)"

subsection \<open>Derived interfaces\<close>

text \<open>
  \<^verbatim>\<open>Interface.from_df\<close> is a class method. Its line
  \<^verbatim>\<open>cls.__validate_index__(df.index)\<close> calls the instance method
  \<^verbatim>\<open>__validate_index__(self, idx)\<close> through the class with one positional argument:
  \<^verbatim>\<open>df.index\<close> is taken for \<^verbatim>\<open>self\<close> and no \<^verbatim>\<open>idx\<close> is passed. Python raises
  \<^verbatim>\<open>TypeError\<close> at the call (in Python 2 because an unbound method needs an
  \<^verbatim>\<open>Interface\<close> instance first, in Python 3 because \<^verbatim>\<open>idx\<close> is missing), before
  the body of the method runs. (\<^verbatim>\<open>Interface.__init__\<close> calls
  \<^verbatim>\<open>self.__validate_index__(idx)\<close>, which is \<open>Interface_validate_index\<close>.)
\<close>

definition cls_validate_index :: "port list \<Rightarrow> error + unit" where
  "cls_validate_index df_index = Inl TypeError"

definition from_df :: "port frame \<Rightarrow> error + Interface" where
  "from_df df =
     (if \<not> set required_columns \<subseteq> set (columns df) then Inl MissingColumns
      else
        (case cls_validate_index (index df) of
           Inl e \<Rightarrow> Inl e
         | Inr _ \<Rightarrow>
             (case Interface_init (index df) (columns df) of
                Inl e \<Rightarrow> Inl e
              | Inr i \<Rightarrow> Inr df)))"

definition get_interface :: "Interface \<Rightarrow> int \<Rightarrow> error + Interface" where
  "get_interface i n = from_df (where_rows (\<lambda>r. cell r ''interface'' = VInt n) i)"

text \<open>\<^verbatim>\<open>data_select(f)\<close> with \<^verbatim>\<open>inplace=False\<close>.\<close>

definition data_select :: "Interface \<Rightarrow> (row \<Rightarrow> bool) \<Rightarrow> error + Interface" where
  "data_select i f = from_df (where_rows f i)"

text \<open>
  \<^verbatim>\<open>ports(i)\<close>, \<^verbatim>\<open>in_ports(i)\<close>, \<^verbatim>\<open>out_ports(i)\<close>: an exception inside gives the
  empty list.
\<close>

definition ports :: "Interface \<Rightarrow> int \<Rightarrow> port list" where
  "ports i n =
     (if ''interface'' \<notin> set (columns i) then []
      else index (where_rows (\<lambda>r. cell r ''interface'' = VInt n) i))"

definition in_ports :: "Interface \<Rightarrow> int \<Rightarrow> port list" where
  "in_ports i n =
     (if \<not> (''io'' \<in> set (columns i) \<and> ''interface'' \<in> set (columns i)) then []
      else index (where_rows (\<lambda>r. cell r ''io'' = VStr ''in''\<and> cell r ''interface'' = VInt n) i))"

definition out_ports :: "Interface \<Rightarrow> int \<Rightarrow> port list" where
  "out_ports i n =
     (if \<not> (''io'' \<in> set (columns i) \<and> ''interface'' \<in> set (columns i)) then []
      else index (where_rows (\<lambda>r. cell r ''io'' = VStr ''out''\<and> cell r ''interface'' = VInt n) i))"

subsection \<open>Queries\<close>

text \<open>
  \<^verbatim>\<open>OrderedDict.fromkeys(xs).keys()\<close>: each key is inserted where it first occurs.
\<close>

definition fromkeys :: "'a list \<Rightarrow> 'a list" where
  "fromkeys xs = fold (\<lambda>x acc. if x \<in> set acc then acc else acc @ [x]) xs []"

text \<open>
  The interface of one group, restricted to a port type when one is given
  (\<^verbatim>\<open>get_interface(i)\<close> or \<^verbatim>\<open>get_interface(i).data_select(lambda x: x['type'] == t)\<close>).
\<close>

definition typed_interface :: "Interface \<Rightarrow> int \<Rightarrow> string option \<Rightarrow> error + Interface" where
  "typed_interface i n ty =
     (case ty of
        None \<Rightarrow> get_interface i n
      | Some t \<Rightarrow>
          (case get_interface i n of
             Inl e \<Rightarrow> Inl e
           | Inr g \<Rightarrow> data_select g (\<lambda>r. cell r ''type'' = VStr t)))"

definition src_idx ::
  "pattern \<Rightarrow> int \<Rightarrow> int \<Rightarrow> string option \<Rightarrow> string option \<Rightarrow> selector option
     \<Rightarrow> error + port list" where
  "src_idx p src_int dest_int src_type dest_type dest_ports =
     (if \<not> src_int \<noteq> dest_int then Inl SameInterface
      else if \<not> (VInt src_int \<in> interface_ids (interface p)
                 \<and> VInt dest_int \<in> interface_ids (interface p)) then Inl UnknownInterface
      else
        (case typed_interface (interface p) dest_int dest_type of
           Inl e \<Rightarrow> Inl e
         | Inr to_int \<Rightarrow>
             (let to_idx = (case dest_ports of
                              None \<Rightarrow> index to_int
                            | Some s \<Rightarrow> index (Interface_getitem to_int s))
              in
                (case typed_interface (interface p) src_int src_type of
                   Inl e \<Rightarrow> Inl e
                 | Inr from_int \<Rightarrow>
                     (let from_idx = index from_int;
                          idx = index (select_rows
                                  (\<lambda>x. fst x \<in> set from_idx \<and> snd x \<in> set to_idx) (data p))
                      in Inr (fromkeys (map fst idx)))))))"

definition dest_idx ::
  "pattern \<Rightarrow> int \<Rightarrow> int \<Rightarrow> string option \<Rightarrow> string option \<Rightarrow> selector option
     \<Rightarrow> error + port list" where
  "dest_idx p src_int dest_int src_type dest_type src_ports =
     (if \<not> src_int \<noteq> dest_int then Inl SameInterface
      else if \<not> (VInt src_int \<in> interface_ids (interface p)
                 \<and> VInt dest_int \<in> interface_ids (interface p)) then Inl UnknownInterface
      else
        (case typed_interface (interface p) src_int src_type of
           Inl e \<Rightarrow> Inl e
         | Inr from_int \<Rightarrow>
             (let from_idx = (case src_ports of
                                None \<Rightarrow> index from_int
                              | Some s \<Rightarrow> index (Interface_getitem from_int s))
              in
                (case typed_interface (interface p) dest_int dest_type of
                   Inl e \<Rightarrow> Inl e
                 | Inr to_int \<Rightarrow>
                     (let to_idx = index to_int;
                          idx = index (select_rows
                                  (\<lambda>x. fst x \<in> set from_idx \<and> snd x \<in> set to_idx) (data p))
                      in Inr (fromkeys (map snd idx)))))))"

text \<open>
  The loop of \<^verbatim>\<open>is_connected\<close> over the edges whose \<^verbatim>\<open>conn\<close> is not 0. The
  condition is \<^verbatim>\<open>a and b\<close>: the destination's interface is fetched only when the
  source is in its own.
\<close>

fun is_connected_loop :: "Interface \<Rightarrow> int \<Rightarrow> int \<Rightarrow> (port \<times> port) list \<Rightarrow> error + bool" where
  "is_connected_loop i from_int to_int [] = Inr False"
| "is_connected_loop i from_int to_int (t # ts) =
     (case get_interface i from_int of
        Inl e \<Rightarrow> Inl e
      | Inr fi \<Rightarrow>
          if fst t \<in> set (index fi) then
            (case get_interface i to_int of
               Inl e \<Rightarrow> Inl e
             | Inr ti \<Rightarrow>
                 if snd t \<in> set (index ti) then Inr True
                 else is_connected_loop i from_int to_int ts)
          else is_connected_loop i from_int to_int ts)"

definition is_connected :: "pattern \<Rightarrow> int \<Rightarrow> int \<Rightarrow> error + bool" where
  "is_connected p from_int to_int =
     (if \<not> from_int \<noteq> to_int then Inl SameInterface
      else if VInt from_int \<notin> interface_ids (interface p) then Inl UnknownInterface
      else if VInt to_int \<notin> interface_ids (interface p) then Inl UnknownInterface
      else if ''conn'' \<notin> set (columns (data p)) then Inl KeyError
      else is_connected_loop (interface p) from_int to_int
             (index (where_rows (\<lambda>r. cell r ''conn'' \<noteq> VInt 0) (data p))))"

subsection \<open>Compatibility of two interfaces\<close>

text \<open>The function \<^verbatim>\<open>applymap\<close> applies to the cells of interface \<^verbatim>\<open>a\<close>.\<close>

definition invert :: "val \<Rightarrow> val" where
  "invert x = (if x = VStr ''in'' then VStr ''out''
               else if x = VStr ''out'' then VStr ''in'' else x)"

definition io_values :: "Interface \<Rightarrow> val list" where
  "io_values i = map (\<lambda>(k, r). cell r ''io'') (rows i)"

definition io_is_set :: "Interface \<Rightarrow> bool" where
  "io_is_set i = (set (io_values i) \<subseteq> {VStr ''in'', VStr ''out''})"

text \<open>
  \<^verbatim>\<open>is_compatible\<close>. \<^verbatim>\<open>self.data['io']\<close> and \<^verbatim>\<open>self.data['interface']\<close> raise
  \<^verbatim>\<open>KeyError\<close> for a table without the column; the \<^verbatim>\<open>or\<close> of the first
  check looks at the other table only when this one passes. \<^verbatim>\<open>idx_a.equals(idx_b)\<close>
  compares the two indexes label by label, in row order, and \<^verbatim>\<open>and\<close> compares the
  \<^verbatim>\<open>io\<close> columns only when the indexes are equal.
\<close>

definition is_compatible :: "Interface \<Rightarrow> int \<Rightarrow> Interface \<Rightarrow> int \<Rightarrow> error + bool" where
  "is_compatible self a i b =
     (if ''io'' \<notin> set (columns self) then Inl KeyError
      else if \<not> io_is_set self then Inl Direction
      else if ''io'' \<notin> set (columns i) then Inl KeyError
      else if \<not> io_is_set i then Inl Direction
      else if \<not> (''interface'' \<in> set (columns self) \<and> ''interface'' \<in> set (columns i))
        then Inl KeyError
      else
        (let sel_a = where_rows (\<lambda>r. cell r ''interface'' = VInt a) self;
             sel_b = where_rows (\<lambda>r. cell r ''interface'' = VInt b) i;
             inv = map invert (io_values sel_a);
             idx_a = index sel_a;
             idx_b = index sel_b
         in Inr (idx_a = idx_b \<and> list_all (\<lambda>(x, y). x = y) (zip inv (io_values sel_b)))))"

subsection \<open>Bulk construction\<close>

text \<open>
  \<^verbatim>\<open>pd.DataFrame(data=data, index=idx, columns=columns)\<close>: no data leaves every cell
  unset, a scalar fills every cell, a dict of scalars fills the columns it names, and a
  sequence of scalars is one column, which needs one column name and one value for each
  index label.
\<close>

definition DataFrame :: "pyvalue \<Rightarrow> 'k list \<Rightarrow> string list \<Rightarrow> error + 'k frame" where
  "DataFrame d idx cols =
     (case d of
        NoneV \<Rightarrow> Inr (empty_frame idx cols)
      | Scalar x \<Rightarrow> Inr \<lparr>columns = cols, rows = map (\<lambda>k. (k, map (\<lambda>c. (c, x)) cols)) idx\<rparr>
      | Mapping m \<Rightarrow>
          Inr \<lparr>columns = cols, rows = map (\<lambda>k. (k, filter (\<lambda>(c, x). c \<in> set cols) m)) idx\<rparr>
      | OrderedValues xs \<Rightarrow>
          (case cols of
             [c] \<Rightarrow> if length xs = length idx
                    then Inr \<lparr>columns = cols, rows = map (\<lambda>(k, x). (k, [(c, x)])) (zip idx xs)\<rparr>
                    else Inl ValueShape
           | _ \<Rightarrow> Inl ValueShape))"

datatype comb_op = Plus | DotPlus

definition combine :: "comb_op \<Rightarrow> selector \<Rightarrow> selector \<Rightarrow> error + (port \<times> port) list" where
  "combine op a b = (case op of Plus \<Rightarrow> Inr (sel_product a b) | DotPlus \<Rightarrow> sel_concat a b)"

text \<open>
  Modelled from the spec: \<^verbatim>\<open>from_sel\<close> and \<^verbatim>\<open>to_sel\<close> default to \<^verbatim>\<open>None\<close>,
  which the absent \<^verbatim>\<open>plsel\<close> cannot resolve to identifiers ("fails with an addressing
  error if the target cannot be resolved"): a write through a missing selector fails,
  and so does \<^verbatim>\<open>make_index\<close> when only one of the two is given.
\<close>

definition Interface_setitem_opt ::
  "Interface \<Rightarrow> selector option \<Rightarrow> string list \<Rightarrow> pyvalue \<Rightarrow> error + Interface" where
  "Interface_setitem_opt i sel key_cols v =
     (case sel of
        None \<Rightarrow> Inl AmbiguousSelector
      | Some s \<Rightarrow>
          (case Interface_setitem i s key_cols v of
             Inl (e, _) \<Rightarrow> Inl e
           | Inr i' \<Rightarrow> Inr i'))"

definition create_from ::
  "selector list \<Rightarrow> selector option \<Rightarrow> selector option \<Rightarrow> pyvalue \<Rightarrow> string list \<Rightarrow> comb_op
     \<Rightarrow> error + pattern" where
  "create_from selectors from_sel to_sel d cols op =
     (case Pattern_init selectors cols of
        Inl e \<Rightarrow> Inl e
      | Inr p \<Rightarrow>
          (case (case (from_sel, to_sel) of
                   (None, None) \<Rightarrow> Inr []
                 | (Some f, Some t) \<Rightarrow>
                     (case combine op f t of Inl e \<Rightarrow> Inl e | Inr s \<Rightarrow> make_index s)
                 | _ \<Rightarrow> Inl AmbiguousSelector) of
             Inl e \<Rightarrow> Inl e
           | Inr idx \<Rightarrow>
               (case DataFrame d idx cols of
                  Inl e \<Rightarrow> Inl e
                | Inr df \<Rightarrow>
                    (case Interface_setitem_opt (interface p) from_sel [''io'']
                            (Scalar (VStr ''in'')) of
                       Inl e \<Rightarrow> Inl e
                     | Inr i1 \<Rightarrow>
                         (case Interface_setitem_opt i1 to_sel [''io'']
                                 (Scalar (VStr ''out'')) of
                            Inl e \<Rightarrow> Inl e
                          | Inr i2 \<Rightarrow> Inr \<lparr>interface = i2, data = df\<rparr>)))))"

definition from_product ::
  "selector list \<Rightarrow> selector option \<Rightarrow> selector option \<Rightarrow> pyvalue \<Rightarrow> string list
     \<Rightarrow> error + pattern" where
  "from_product selectors from_sel to_sel d cols =
     create_from selectors from_sel to_sel d cols Plus"

definition from_concat ::
  "selector list \<Rightarrow> selector option \<Rightarrow> selector option \<Rightarrow> pyvalue \<Rightarrow> string list
     \<Rightarrow> error + pattern" where
  "from_concat selectors from_sel to_sel d cols =
     create_from selectors from_sel to_sel d cols DotPlus"

section \<open>The scenarios of the tests\<close>

text \<open>
  The ports \<^verbatim>\<open>('foo', n)\<close> and \<^verbatim>\<open>('bar', n)\<close> of the tests, a pattern built
  and written to as the tests do (\<^verbatim>\<open>p = Pattern(...); p[...] = ...\<close>; any exception
  ends the scenario), and the read of one attribute of one port.
\<close>

abbreviation foo :: "int \<Rightarrow> port" where
  "foo n \<equiv> [TStr ''foo'', TInt n]"

abbreviation bar :: "int \<Rightarrow> port" where
  "bar n \<equiv> [TStr ''bar'', TInt n]"

definition build ::
  "selector list \<Rightarrow> string list \<Rightarrow> ((selector \<times> selector \<times> string list) \<times> pyvalue) list
     \<Rightarrow> error + pattern" where
  "build selectors cols ws =
     (case Pattern_init selectors cols of
        Inl e \<Rightarrow> Inl e
      | Inr p \<Rightarrow> (case setitems p ws of Inl (e, _) \<Rightarrow> Inl e | Inr q \<Rightarrow> Inr q))"

definition port_attr :: "Interface \<Rightarrow> port \<Rightarrow> string \<Rightarrow> val option" where
  "port_attr i k c = map_option (\<lambda>r. cell r c) (map_of (rows i) k)"

text \<open>
  \<^verbatim>\<open>test_create\<close>, which is the scenario of section 8 of the specification: six
  writes over \<^verbatim>\<open>/foo[0:3]\<close> and \<^verbatim>\<open>/bar[0:3]\<close>.
\<close>

definition test_create :: "error + pattern" where
  "test_create =
     build [[foo 0, foo 1, foo 2], [bar 0, bar 1, bar 2]] [''conn'', ''from_type'', ''to_type'']
       [(([foo 0], [bar 0], []), OrderedValues [VInt 1, VStr ''spike'', VStr ''spike'']),
        (([foo 0], [bar 1], []), OrderedValues [VInt 1, VStr ''spike'', VStr ''spike'']),
        (([foo 2], [bar 2], []), OrderedValues [VInt 1, VStr ''spike'', VStr ''spike'']),
        (([bar 0], [foo 0], []), OrderedValues [VInt 1, VStr ''gpot'', VStr ''gpot'']),
        (([bar 1], [foo 0], []), OrderedValues [VInt 1, VStr ''gpot'', VStr ''gpot'']),
        (([bar 2], [foo 1], []), OrderedValues [VInt 1, VStr ''spike'', VStr ''gpot''])]"

text \<open>
  The interfaces of the \<^verbatim>\<open>is_compatible\<close> tests:
  \<^verbatim>\<open>i = Interface(sel); i[sel, 'interface', 'io'] = [n, d]\<close>.
\<close>

definition tagged_interface :: "selector \<Rightarrow> int \<Rightarrow> string \<Rightarrow> error + Interface" where
  "tagged_interface sel n d =
     (case Interface_init sel required_columns of
        Inl e \<Rightarrow> Inl e
      | Inr i \<Rightarrow>
          (case Interface_setitem i sel [''interface'', ''io'']
                  (OrderedValues [VInt n, VStr d]) of
             Inl (e, _) \<Rightarrow> Inl e
           | Inr i' \<Rightarrow> Inr i'))"

text \<open>
  The two interfaces of \<^verbatim>\<open>test_is_compatible_one_dir\<close>
  (\<^verbatim>\<open>i = Interface('/foo[0:2]'); i['/foo[0:2]', 'interface', 'io'] = [0, 'out']\<close> and
  \<^verbatim>\<open>j\<close>, the same with \<^verbatim>\<open>[1, 'in']\<close>), and two variants of the first: one
  with its two ports listed the other way round (\<^verbatim>\<open>Interface('/foo[1],/foo[0]')\<close>),
  one with a third port \<^verbatim>\<open>('bar', 0)\<close> in another interface whose \<^verbatim>\<open>io\<close> is
  not set.
\<close>

definition i_out :: Interface where
  "i_out = \<lparr>columns = [''interface'', ''io'', ''type''],
            rows = [(foo 0, [(''interface'', VInt 0), (''io'', VStr ''out'')]),
                    (foo 1, [(''interface'', VInt 0), (''io'', VStr ''out'')])]\<rparr>"

definition j_in :: Interface where
  "j_in = \<lparr>columns = [''interface'', ''io'', ''type''],
           rows = [(foo 0, [(''interface'', VInt 1), (''io'', VStr ''in'')]),
                   (foo 1, [(''interface'', VInt 1), (''io'', VStr ''in'')])]\<rparr>"

definition i_out_reversed :: Interface where
  "i_out_reversed = \<lparr>columns = [''interface'', ''io'', ''type''],
                     rows = [(foo 1, [(''interface'', VInt 0), (''io'', VStr ''out'')]),
                             (foo 0, [(''interface'', VInt 0), (''io'', VStr ''out'')])]\<rparr>"

definition i_out_extra :: Interface where
  "i_out_extra = \<lparr>columns = [''interface'', ''io'', ''type''],
                  rows = [(bar 0, [(''interface'', VInt 2)]),
                          (foo 0, [(''interface'', VInt 0), (''io'', VStr ''out'')]),
                          (foo 1, [(''interface'', VInt 0), (''io'', VStr ''out'')])]\<rparr>"

section \<open>Facts about DataFrames and selectors\<close>

lemma index_set_column: "set_column f k idx v = Inr f' \<Longrightarrow> index f' = index f"
  by (auto simp: set_column_def index_def split: if_splits)

lemma columns_set_column: "set_column f k idx v = Inr f' \<Longrightarrow> columns f' = columns f"
  by (auto simp: set_column_def split: if_splits)

lemma index_set_items_err: "set_items f idx d = Inl (e, f') \<Longrightarrow> index f' = index f"
  by (induction f idx d rule: set_items.induct) (auto split: sum.splits dest: index_set_column)

lemma index_set_items_ok: "set_items f idx d = Inr f' \<Longrightarrow> index f' = index f"
  by (induction f idx d rule: set_items.induct) (auto split: sum.splits dest: index_set_column)

lemma length_rows_index: "length (rows f) = length (index f)"
  by (simp add: index_def)

lemma index_DataFrame: "DataFrame d idx cols = Inr df \<Longrightarrow> index df = idx"
  by (auto simp: DataFrame_def index_def empty_frame_def comp_def case_prod_beta
           split: pyvalue.splits list.splits if_splits)

lemma has_duplicates_iff: "has_duplicates idx \<longleftrightarrow> \<not> distinct idx"
  by (auto simp: has_duplicates_def index_has_duplicates_def distinct_remdups_id)

lemma Interface_init_required:
  "Interface_init sel required_columns =
     (if distinct sel then Inr (empty_frame sel required_columns) else Inl DuplicateIdentifier)"
  by (simp add: Interface_init_def make_index_def Interface_validate_index_def has_duplicates_iff)

text \<open>
  \<open>are_disjoint\<close> in the words of the docstring of \<^verbatim>\<open>Pattern\<close>: "no identifier
  comprised by one selector may be in any other selector".
\<close>

lemma are_disjoint_Cons:
  "are_disjoint (s # ss) \<longleftrightarrow> (\<forall>t \<in> set ss. set s \<inter> set t = {}) \<and> are_disjoint ss"
  by (auto simp: list_all_iff)

lemma are_disjoint_iff:
  "are_disjoint sels \<longleftrightarrow>
     (\<forall>i < length sels. \<forall>j < length sels. i \<noteq> j \<longrightarrow> set (sels ! i) \<inter> set (sels ! j) = {})"
proof (induction sels)
  case Nil
  then show ?case by simp
next
  case (Cons s ss)
  show ?case
  proof
    assume a: "are_disjoint (s # ss)"
    then have d: "\<forall>t \<in> set ss. set s \<inter> set t = {}" and r: "are_disjoint ss"
      by (simp_all add: are_disjoint_Cons del: are_disjoint.simps)
    show "\<forall>i < length (s # ss). \<forall>j < length (s # ss). i \<noteq> j \<longrightarrow>
            set ((s # ss) ! i) \<inter> set ((s # ss) ! j) = {}"
    proof (intro allI impI)
      fix i j
      assume i: "i < length (s # ss)" and j: "j < length (s # ss)" and ij: "i \<noteq> j"
      show "set ((s # ss) ! i) \<inter> set ((s # ss) ! j) = {}"
      proof (cases i)
        case 0
        with ij obtain j' where "j = Suc j'" by (cases j) auto
        with 0 j d show ?thesis by auto
      next
        case (Suc i')
        show ?thesis
        proof (cases j)
          case 0
          with Suc i d show ?thesis by auto
        next
          case (Suc j')
          with \<open>i = Suc i'\<close> i j ij r Cons.IH show ?thesis by auto
        qed
      qed
    qed
  next
    assume a: "\<forall>i < length (s # ss). \<forall>j < length (s # ss). i \<noteq> j \<longrightarrow>
                 set ((s # ss) ! i) \<inter> set ((s # ss) ! j) = {}"
    have "\<forall>t \<in> set ss. set s \<inter> set t = {}"
    proof
      fix t
      assume "t \<in> set ss"
      then obtain k where k: "k < length ss" "ss ! k = t"
        by (auto simp: in_set_conv_nth)
      with a [rule_format, of 0 "Suc k"] show "set s \<inter> set t = {}" by simp
    qed
    moreover have "are_disjoint ss"
    proof -
      have "\<forall>i < length ss. \<forall>j < length ss. i \<noteq> j \<longrightarrow> set (ss ! i) \<inter> set (ss ! j) = {}"
      proof (intro allI impI)
        fix i j
        assume "i < length ss" "j < length ss" "i \<noteq> j"
        with a [rule_format, of "Suc i" "Suc j"] show "set (ss ! i) \<inter> set (ss ! j) = {}"
          by simp
      qed
      with Cons.IH show ?thesis by simp
    qed
    ultimately show "are_disjoint (s # ss)"
      by (simp add: are_disjoint_Cons del: are_disjoint.simps)
  qed
qed

lemma distinct_concat_disjoint:
  "are_disjoint sels \<Longrightarrow> list_all distinct sels \<Longrightarrow> distinct (concat sels)"
proof (induction sels)
  case Nil
  then show ?case by simp
next
  case (Cons s ss)
  then show ?case
    by (auto simp: are_disjoint_Cons simp del: are_disjoint.simps)
qed

lemma not_distinct_concat:
  "\<not> list_all distinct sels \<Longrightarrow> \<not> distinct (concat sels)"
  by (induction sels) auto

section \<open>Writes to the port table\<close>

text \<open>
  A scalar written to one column of ports that are all in the table always succeeds,
  and leaves the table's ports and columns as they were.
\<close>

lemma Interface_setitem_scalar:
  assumes c: "c \<in> set (columns i)" and s: "set s \<subseteq> set (index i)"
  shows "\<exists>i'. Interface_setitem i s [c] (Scalar v) = Inr i'
           \<and> set (index i') = set (index i) \<and> columns i' = columns i"
proof (cases "index (select i s) = []")
  case True
  have "s = []"
  proof (rule ccontr)
    assume "s \<noteq> []"
    then obtain x where x: "x \<in> set s" by (cases s) auto
    with s have "x \<in> set (index i)" by auto
    with x have "x \<in> set (index (select i s))"
      by (force simp: index_def select_def select_rows_def)
    with True show False by simp
  qed
  with True c show ?thesis
    by (simp add: Interface_setitem_def resolve_def get_index_def make_index_def to_dict_def
        dict_def dict_frame_def append_def sort_frame_def index_def)
next
  case False
  then have r: "resolve i s = Inr (index (select i s), True)"
    by (simp add: resolve_def get_index_def)
  from c obtain f' where f': "set_column i c (index (select i s)) v = Inr f'"
    by (auto simp: set_column_def)
  with r show ?thesis
    by (simp add: Interface_setitem_def to_dict_def dict_def index_set_column columns_set_column)
qed

lemma set_interface_ids_ok:
  "''interface'' \<in> set (columns i) \<Longrightarrow> \<forall>s \<in> set ss. set s \<subseteq> set (index i) \<Longrightarrow>
     \<exists>i'. set_interface_ids i n ss = Inr i'"
proof (induction ss arbitrary: i n)
  case Nil
  then show ?case by simp
next
  case (Cons s ss)
  from Cons.prems obtain i1 where
    i1: "Interface_setitem i s [''interface''] (Scalar (VInt (int n))) = Inr i1"
      "set (index i1) = set (index i)" "columns i1 = columns i"
    using Interface_setitem_scalar [of "''interface''" i s "VInt (int n)"] by auto
  with Cons.prems have "\<exists>i'. set_interface_ids i1 (Suc n) ss = Inr i'"
    by (intro Cons.IH) auto
  with i1 show ?case by simp
qed

section \<open>Construction\<close>

text \<open>
  C3, as the code has it. \<^verbatim>\<open>Pattern.__init__\<close> fails with the disjointness assertion
  when some identifier is comprised by two of the selectors. When the selectors are
  pairwise disjoint, construction succeeds with no edge exactly when every selector also
  expands without duplicates; a selector that lists an identifier twice makes
  \<^verbatim>\<open>Interface.__init__\<close> raise the duplicate-identifier error (this is
  \<^verbatim>\<open>test_create_dup_identifiers\<close>).
\<close>

theorem Pattern_init_disjoint_selectors:
  "(\<not> are_disjoint selectors \<longrightarrow> Pattern_init selectors cols = Inl Disjointness) \<and>
   (are_disjoint selectors \<and> \<not> list_all distinct selectors \<longrightarrow>
      Pattern_init selectors cols = Inl DuplicateIdentifier) \<and>
   (are_disjoint selectors \<and> list_all distinct selectors \<longrightarrow>
      (\<exists>p. Pattern_init selectors cols = Inr p \<and> get_conns p = [] \<and> Pattern_len p = 0))"
proof (intro conjI impI)
  assume "\<not> are_disjoint selectors"
  then show "Pattern_init selectors cols = Inl Disjointness"
    by (simp add: Pattern_init_def)
next
  assume "are_disjoint selectors \<and> \<not> list_all distinct selectors"
  then show "Pattern_init selectors cols = Inl DuplicateIdentifier"
    by (simp add: Pattern_init_def Interface_init_required not_distinct_concat)
next
  assume a: "are_disjoint selectors \<and> list_all distinct selectors"
  then have d: "distinct (concat selectors)"
    by (simp add: distinct_concat_disjoint)
  let ?i = "empty_frame (concat selectors) required_columns"
  have "\<exists>i'. set_interface_ids ?i 0 selectors = Inr i'"
    by (rule set_interface_ids_ok)
       (auto simp: empty_frame_def required_columns_def index_def comp_def)
  then obtain i' where "set_interface_ids ?i 0 selectors = Inr i'" ..
  with a d show "\<exists>p. Pattern_init selectors cols = Inr p \<and> get_conns p = [] \<and> Pattern_len p = 0"
    by (simp add: Pattern_init_def Interface_init_required get_conns_def Pattern_len_def
        empty_frame_def index_def)
qed

theorem Pattern_init_disjoint_selectors_witness:
  "Pattern_init [[foo 0, foo 1, foo 2], [foo 0, foo 1]] [''conn''] = Inl Disjointness \<and>
   Pattern_init [[foo 0, foo 0], [bar 0, bar 1]] [''conn''] = Inl DuplicateIdentifier \<and>
   (\<exists>p. Pattern_init [[foo 0, foo 1], [bar 0, bar 1]] [''conn''] = Inr p \<and> get_conns p = []
        \<and> Pattern_len p = 0)"
proof -
  have 1: "\<not> are_disjoint [[foo 0, foo 1, foo 2], [foo 0, foo 1]]" by simp
  have 2: "are_disjoint [[foo 0, foo 0], [bar 0, bar 1]]
             \<and> \<not> list_all distinct [[foo 0, foo 0], [bar 0, bar 1]]" by simp
  have 3: "are_disjoint [[foo 0, foo 1], [bar 0, bar 1]]
             \<and> list_all distinct [[foo 0, foo 1], [bar 0, bar 1]]" by simp
  show ?thesis
    using 1 2 3
      Pattern_init_disjoint_selectors [of "[[foo 0, foo 1, foo 2], [foo 0, foo 1]]" "[''conn'']"]
      Pattern_init_disjoint_selectors [of "[[foo 0, foo 0], [bar 0, bar 1]]" "[''conn'']"]
      Pattern_init_disjoint_selectors [of "[[foo 0, foo 1], [bar 0, bar 1]]" "[''conn'']"]
    by blast
qed

text \<open>
  C3 as the specification states it fails: the two selectors of
  \<^verbatim>\<open>Pattern('/foo[0],/foo[0]', '/bar[0:2]')\<close> share no identifier, and construction
  does not succeed.
\<close>

theorem duplicate_in_selector_counterexample:
  "are_disjoint [[foo 0, foo 0], [bar 0, bar 1]] \<and>
   Pattern_init [[foo 0, foo 0], [bar 0, bar 1]] [''conn''] = Inl DuplicateIdentifier"
  by code_simp

section \<open>Clearing\<close>

text \<open>
  C6: \<^verbatim>\<open>clear()\<close> leaves no edge (\<^verbatim>\<open>len(p) == 0\<close>) and does not touch the port
  table: every port keeps its \<^verbatim>\<open>interface\<close>, \<^verbatim>\<open>io\<close> and \<^verbatim>\<open>type\<close>.
\<close>

theorem clear_empties_edges_keeps_ports:
  "Pattern_len (clear p) = 0 \<and> get_conns (clear p) = [] \<and> interface (clear p) = interface p"
proof -
  have "filter (\<lambda>(k, r). k \<notin> set (index (data p))) (rows (data p)) = []"
    by (force simp: index_def filter_empty_conv)
  then show ?thesis
    by (simp add: clear_def drop_def Pattern_len_def get_conns_def index_def)
qed

section \<open>Bulk construction\<close>

text \<open>
  C8: when \<^verbatim>\<open>from_product(..., from_sel=F, to_sel=T, ...)\<close> returns a pattern, its
  edges are the pairs of the product of the identifiers of \<open>F\<close> with those of \<open>T\<close>,
  in that order: an edge from \<open>s\<close> to \<open>d\<close> exists exactly when \<open>s\<close> is one of \<open>F\<close>
  and \<open>d\<close> one of \<open>T\<close>.
\<close>

theorem from_product_edges:
  "from_product selectors (Some F) (Some T) d cols = Inr p \<Longrightarrow>
     get_conns p = sel_product F T \<and> set (get_conns p) = set F \<times> set T"
proof -
  assume a: "from_product selectors (Some F) (Some T) d cols = Inr p"
  have "index (data p) = sel_product F T"
    using a unfolding from_product_def create_from_def combine_def make_index_def
    by (auto split: sum.splits if_splits dest: index_DataFrame)
  then show ?thesis
    by (simp add: get_conns_def sel_product_def)
qed

theorem from_product_edges_witness:
  "from_product [[foo 0, foo 1], [bar 0, bar 1]] (Some [foo 0, foo 1]) (Some [bar 0, bar 1])
       (Scalar (VInt 1)) [''conn''] =
     Inr \<lparr>interface =
            \<lparr>columns = [''interface'', ''io'', ''type''],
             rows = [(foo 0, [(''interface'', VInt 0), (''io'', VStr ''in'')]),
                     (foo 1, [(''interface'', VInt 0), (''io'', VStr ''in'')]),
                     (bar 0, [(''interface'', VInt 1), (''io'', VStr ''out'')]),
                     (bar 1, [(''interface'', VInt 1), (''io'', VStr ''out'')])]\<rparr>,
          data =
            \<lparr>columns = [''conn''],
             rows = [((foo 0, bar 0), [(''conn'', VInt 1)]),
                     ((foo 0, bar 1), [(''conn'', VInt 1)]),
                     ((foo 1, bar 0), [(''conn'', VInt 1)]),
                     ((foo 1, bar 1), [(''conn'', VInt 1)])]\<rparr>\<rparr> \<and>
   get_conns \<lparr>interface =
            \<lparr>columns = [''interface'', ''io'', ''type''],
             rows = [(foo 0, [(''interface'', VInt 0), (''io'', VStr ''in'')]),
                     (foo 1, [(''interface'', VInt 0), (''io'', VStr ''in'')]),
                     (bar 0, [(''interface'', VInt 1), (''io'', VStr ''out'')]),
                     (bar 1, [(''interface'', VInt 1), (''io'', VStr ''out'')])]\<rparr>,
          data =
            \<lparr>columns = [''conn''],
             rows = [((foo 0, bar 0), [(''conn'', VInt 1)]),
                     ((foo 0, bar 1), [(''conn'', VInt 1)]),
                     ((foo 1, bar 0), [(''conn'', VInt 1)]),
                     ((foo 1, bar 1), [(''conn'', VInt 1)])]\<rparr>\<rparr> =
     sel_product [foo 0, foo 1] [bar 0, bar 1]"
proof -
  have h: "from_product [[foo 0, foo 1], [bar 0, bar 1]] (Some [foo 0, foo 1])
             (Some [bar 0, bar 1]) (Scalar (VInt 1)) [''conn''] =
     Inr \<lparr>interface =
            \<lparr>columns = [''interface'', ''io'', ''type''],
             rows = [(foo 0, [(''interface'', VInt 0), (''io'', VStr ''in'')]),
                     (foo 1, [(''interface'', VInt 0), (''io'', VStr ''in'')]),
                     (bar 0, [(''interface'', VInt 1), (''io'', VStr ''out'')]),
                     (bar 1, [(''interface'', VInt 1), (''io'', VStr ''out'')])]\<rparr>,
          data =
            \<lparr>columns = [''conn''],
             rows = [((foo 0, bar 0), [(''conn'', VInt 1)]),
                     ((foo 0, bar 1), [(''conn'', VInt 1)]),
                     ((foo 1, bar 0), [(''conn'', VInt 1)]),
                     ((foo 1, bar 1), [(''conn'', VInt 1)])]\<rparr>\<rparr>"
    by code_simp
  show ?thesis
    using h from_product_edges [OF h] by simp
qed

section \<open>Rejected writes\<close>

text \<open>
  C9: a connection write that raises, whatever the reason, leaves the edges as they
  were: the same edge keys in the same order, and so the same number of them. (The
  assertions, the selector resolution and the conversion of the value all come before
  the first change to \<^verbatim>\<open>self.data\<close>; a \<^verbatim>\<open>KeyError\<close> in the loop over existing
  rows changes cells only.)
\<close>

theorem rejected_write_keeps_edges:
  "Pattern_setitem p key v = Inl (e, p') \<Longrightarrow>
     get_conns p' = get_conns p \<and> Pattern_len p' = Pattern_len p"
proof -
  assume a: "Pattern_setitem p key v = Inl (e, p')"
  have "index (data p') = index (data p)"
    using a unfolding Pattern_setitem_def
    by (auto split: prod.splits sum.splits if_splits dest: index_set_items_err)
  then show ?thesis
    by (simp add: get_conns_def Pattern_len_def length_rows_index)
qed

theorem rejected_write_keeps_edges_witness:
  "Pattern_setitem
     \<lparr>interface =
        \<lparr>columns = [''interface'', ''io'', ''type''],
         rows = [(foo 0, [(''interface'', VInt 0), (''io'', VStr ''in'')]),
                 (foo 1, [(''interface'', VInt 0)]),
                 (bar 0, [(''interface'', VInt 1), (''io'', VStr ''out'')]),
                 (bar 1, [(''interface'', VInt 1)])]\<rparr>,
      data = \<lparr>columns = [''conn''], rows = [((foo 0, bar 0), [(''conn'', VInt 1)])]\<rparr>\<rparr>
     ([foo 0, foo 1], [bar 1], []) (OrderedValues [VInt 1, VInt 2]) =
   Inl (ValueShape,
     \<lparr>interface =
        \<lparr>columns = [''interface'', ''io'', ''type''],
         rows = [(foo 0, [(''interface'', VInt 0), (''io'', VStr ''in'')]),
                 (foo 1, [(''interface'', VInt 0), (''io'', VStr ''in'')]),
                 (bar 0, [(''interface'', VInt 1), (''io'', VStr ''out'')]),
                 (bar 1, [(''interface'', VInt 1), (''io'', VStr ''out'')])]\<rparr>,
      data = \<lparr>columns = [''conn''], rows = [((foo 0, bar 0), [(''conn'', VInt 1)])]\<rparr>\<rparr>) \<and>
   get_conns
     \<lparr>interface =
        \<lparr>columns = [''interface'', ''io'', ''type''],
         rows = [(foo 0, [(''interface'', VInt 0), (''io'', VStr ''in'')]),
                 (foo 1, [(''interface'', VInt 0), (''io'', VStr ''in'')]),
                 (bar 0, [(''interface'', VInt 1), (''io'', VStr ''out'')]),
                 (bar 1, [(''interface'', VInt 1), (''io'', VStr ''out'')])]\<rparr>,
      data = \<lparr>columns = [''conn''], rows = [((foo 0, bar 0), [(''conn'', VInt 1)])]\<rparr>\<rparr> =
   [(foo 0, bar 0)]"
proof -
  have h: "Pattern_setitem
     \<lparr>interface =
        \<lparr>columns = [''interface'', ''io'', ''type''],
         rows = [(foo 0, [(''interface'', VInt 0), (''io'', VStr ''in'')]),
                 (foo 1, [(''interface'', VInt 0)]),
                 (bar 0, [(''interface'', VInt 1), (''io'', VStr ''out'')]),
                 (bar 1, [(''interface'', VInt 1)])]\<rparr>,
      data = \<lparr>columns = [''conn''], rows = [((foo 0, bar 0), [(''conn'', VInt 1)])]\<rparr>\<rparr>
     ([foo 0, foo 1], [bar 1], []) (OrderedValues [VInt 1, VInt 2]) =
   Inl (ValueShape,
     \<lparr>interface =
        \<lparr>columns = [''interface'', ''io'', ''type''],
         rows = [(foo 0, [(''interface'', VInt 0), (''io'', VStr ''in'')]),
                 (foo 1, [(''interface'', VInt 0), (''io'', VStr ''in'')]),
                 (bar 0, [(''interface'', VInt 1), (''io'', VStr ''out'')]),
                 (bar 1, [(''interface'', VInt 1), (''io'', VStr ''out'')])]\<rparr>,
      data = \<lparr>columns = [''conn''], rows = [((foo 0, bar 0), [(''conn'', VInt 1)])]\<rparr>\<rparr>)"
    by code_simp
  show ?thesis
    using h rejected_write_keeps_edges [OF h] by (simp add: get_conns_def index_def)
qed

section \<open>What a connection write checks\<close>

text \<open>
  The errors \<^verbatim>\<open>Pattern.__setitem__\<close> can raise. The fan-in error and the
  duplicate-edge error are not among them: \<^verbatim>\<open>Pattern.__validate_index__\<close> is defined
  and never called.
\<close>

lemma set_items_error: "set_items f idx d = Inl (e, f') \<Longrightarrow> e = KeyError"
  by (induction f idx d rule: set_items.induct)
     (auto simp: set_column_def split: sum.splits if_splits)

lemma to_dict_error: "to_dict kc fc v = Inl e \<Longrightarrow> e = ValueShape \<or> e = IndexError"
  by (auto simp: to_dict_def split: if_splits pyvalue.splits list.splits)

lemma resolve_error: "resolve f sel = Inl e \<Longrightarrow> e = AmbiguousSelector"
  by (auto simp: resolve_def split: sum.splits)

lemma Interface_setitem_error:
  "Interface_setitem i s kc v = Inl (e, i') \<Longrightarrow>
     e = AmbiguousSelector \<or> e = ValueShape \<or> e = IndexError \<or> e = KeyError"
  by (auto simp: Interface_setitem_def split: sum.splits prod.splits if_splits
           dest: set_items_error to_dict_error resolve_error)

lemma Pattern_setitem_errors:
  assumes "Pattern_setitem p key v = Inl (e, p')"
  shows "e \<in> {NotInInterfaces, Direction, AmbiguousSelector, ValueShape, IndexError, KeyError}"
  using assms unfolding Pattern_setitem_def
  by (auto split: prod.splits sum.splits if_splits
           dest: set_items_error to_dict_error resolve_error Interface_setitem_error)

text \<open>
  The direction check compares the two sets of interface numbers. Selectors that both
  resolve and reach the same set of interfaces are rejected before anything is written.
\<close>

lemma same_interfaces_rejected:
  assumes "in_interfaces p key0" and "in_interfaces p key1"
    and "which_int (interface p) key0 = which_int (interface p) key1"
  shows "Pattern_setitem p (key0, key1, key_cols) v = Inl (Direction, p)"
  using assms by (simp add: Pattern_setitem_def)

text \<open>
  The \<^verbatim>\<open>io\<close> tags after a write that got past the checks, whether it then stored
  its edges or was rejected for the shape of its value: a port the destination selector
  matches reads \<^verbatim>\<open>'out'\<close>; a port the source selector matches reads \<^verbatim>\<open>'in'\<close>
  unless the destination selector matches it too.
\<close>

lemma cell_update: "cell (AList.update c v r) c = v"
  by (simp add: cell_def update_conv')

lemma Interface_setitem_io_rows:
  assumes found: "index (select i s) \<noteq> []"
    and ok: "Interface_setitem i s [''io''] (Scalar v) = Inr i'"
  shows "rows i' = map (\<lambda>(k, r). if k \<in> set s then (k, AList.update ''io'' v r) else (k, r))
                     (rows i)"
proof -
  have idx: "\<And>k r. (k, r) \<in> set (rows i) \<Longrightarrow> k \<in> set (index (select i s)) \<longleftrightarrow> k \<in> set s"
    by (force simp: index_def select_def select_rows_def)
  from found have r: "resolve i s = Inr (index (select i s), True)"
    by (simp add: resolve_def get_index_def)
  from ok r have "set_column i ''io'' (index (select i s)) v = Inr i'"
    by (simp add: Interface_setitem_def to_dict_def dict_def split: sum.splits)
  then have "rows i' = map (\<lambda>(key, r). if key \<in> set (index (select i s))
                                        then (key, AList.update ''io'' v r) else (key, r)) (rows i)"
    by (auto simp: set_column_def split: if_splits)
  also have "\<dots> = map (\<lambda>(k, r). if k \<in> set s then (k, AList.update ''io'' v r) else (k, r))
                     (rows i)"
    by (rule map_cong) (auto simp: idx)
  finally show ?thesis .
qed

lemma in_interfaces_found: "in_interfaces p s \<longleftrightarrow> index (select (interface p) s) \<noteq> []"
  by (simp add: in_interfaces_def Interface_getitem_def index_def)

lemma index_select: "index (select i s) = filter (\<lambda>k. k \<in> set s) (index i)"
  by (simp add: index_def select_def select_rows_def filter_map comp_def case_prod_unfold)

lemma Interface_setitem_scalar_error:
  "Interface_setitem i s [c] (Scalar v) = Inl (e, i') \<Longrightarrow> e = AmbiguousSelector \<or> e = KeyError"
  by (auto simp: Interface_setitem_def to_dict_def split: sum.splits prod.splits if_splits
           dest: set_items_error resolve_error)

lemma written_tags:
  assumes w: "Pattern_setitem p (key0, key1, key_cols) v = Inr p'
              \<or> Pattern_setitem p (key0, key1, key_cols) v = Inl (ValueShape, p')"
    and row: "(k, r) \<in> set (rows (interface p'))"
  shows "(k \<in> set key1 \<longrightarrow> cell r ''io'' = VStr ''out'') \<and>
         (k \<in> set key0 \<and> k \<notin> set key1 \<longrightarrow> cell r ''io'' = VStr ''in'')"
proof -
  let ?w = "Pattern_setitem p (key0, key1, key_cols) v"
  have c0: "in_interfaces p key0"
  proof (rule ccontr)
    assume "\<not> in_interfaces p key0"
    then have "?w = Inl (NotInInterfaces, p)" by (simp add: Pattern_setitem_def)
    with w show False by simp
  qed
  have c1: "in_interfaces p key1"
  proof (rule ccontr)
    assume "\<not> in_interfaces p key1"
    with c0 have "?w = Inl (NotInInterfaces, p)" by (simp add: Pattern_setitem_def)
    with w show False by simp
  qed
  have c2: "which_int (interface p) key0 \<noteq> which_int (interface p) key1"
  proof (rule ccontr)
    assume "\<not> which_int (interface p) key0 \<noteq> which_int (interface p) key1"
    with c0 c1 have "?w = Inl (Direction, p)" by (simp add: Pattern_setitem_def)
    with w show False by simp
  qed
  from c0 c1 c2 have rest: "?w =
     (case resolve (data p) (sel_product key0 key1) of
        Inl e \<Rightarrow> Inl (e, p)
      | Inr (idx, found) \<Rightarrow>
          (case Interface_setitem (interface p) key0 [''io''] (Scalar (VStr ''in'')) of
             Inl (e, i1) \<Rightarrow> Inl (e, p\<lparr>interface := i1\<rparr>)
           | Inr i1 \<Rightarrow>
               (case Interface_setitem i1 key1 [''io''] (Scalar (VStr ''out'')) of
                  Inl (e, i2) \<Rightarrow> Inl (e, p\<lparr>interface := i2\<rparr>)
                | Inr i2 \<Rightarrow>
                    (case to_dict key_cols (columns (data p)) v of
                       Inl e \<Rightarrow> Inl (e, p\<lparr>interface := i2\<rparr>)
                     | Inr d \<Rightarrow>
                         if found then
                           (case set_items (data p) idx d of
                              Inl (e, f) \<Rightarrow> Inl (e, p\<lparr>interface := i2, data := f\<rparr>)
                            | Inr f \<Rightarrow> Inr (p\<lparr>interface := i2, data := f\<rparr>))
                         else
                           Inr (p\<lparr>interface := i2,
                                  data := sort_frame
                                    (append (data p) (dict_frame d idx))\<rparr>)))))"
    by (simp add: Pattern_setitem_def)
  from w obtain i1 i2 where
    i1: "Interface_setitem (interface p) key0 [''io''] (Scalar (VStr ''in'')) = Inr i1" and
    i2: "Interface_setitem i1 key1 [''io''] (Scalar (VStr ''out'')) = Inr i2" and
    p': "interface p' = i2"
    unfolding rest
    by (auto split: if_splits sum.splits prod.splits
             dest: Interface_setitem_scalar_error resolve_error set_items_error)
  from c0 have f0: "index (select (interface p) key0) \<noteq> []"
    by (simp add: in_interfaces_found)
  from c1 have f1: "index (select (interface p) key1) \<noteq> []"
    by (simp add: in_interfaces_found)
  have r1: "rows i1 = map (\<lambda>(k, r). if k \<in> set key0 then (k, AList.update ''io'' (VStr ''in'') r)
                                     else (k, r)) (rows (interface p))"
    using f0 i1 by (rule Interface_setitem_io_rows)
  then have "index i1 = index (interface p)"
    by (simp add: index_def comp_def case_prod_unfold if_distrib)
  with f1 have "index (select i1 key1) \<noteq> []"
    by (simp add: index_select)
  then have r2: "rows i2 = map (\<lambda>(k, r). if k \<in> set key1
                                          then (k, AList.update ''io'' (VStr ''out'') r)
                                          else (k, r)) (rows i1)"
    using i2 by (rule Interface_setitem_io_rows)
  from row p' r1 r2 show ?thesis
    by (auto simp: cell_update split: if_splits)
qed

section \<open>The scenarios, evaluated\<close>

text \<open>
  C1. The six writes of \<^verbatim>\<open>test_create\<close> (the scenario of section 8) are all
  accepted, and the pattern then holds two edges into \<^verbatim>\<open>('foo', 0)\<close>, from
  \<^verbatim>\<open>('bar', 0)\<close> and from \<^verbatim>\<open>('bar', 1)\<close>: the edges grouped by destination
  have a group of size 2. \<^verbatim>\<open>Pattern.__validate_index__\<close>, run on the stored index,
  reports the fan-in; \<^verbatim>\<open>__setitem__\<close> never runs it.
\<close>

theorem fan_in_write_accepted:
  "map_sum id (\<lambda>p. (get_conns p, Pattern_validate_index (get_conns p))) test_create =
     Inr ([(bar 0, foo 0), (bar 1, foo 0), (bar 2, foo 1),
           (foo 0, bar 0), (foo 0, bar 1), (foo 2, bar 2)],
          Inl FanIn)"
  by code_simp

text \<open>
  C2. \<^verbatim>\<open>p = Pattern('/foo[0:2]', '/bar[0]'); p['/[foo,bar][0]', '/foo[0]'] = 1\<close>.
  The source selector reaches interfaces 0 and 1, the destination selector interface 0:
  the two sets differ, so the direction assertion passes. The write stores an edge from
  \<^verbatim>\<open>('foo', 0)\<close> to itself, and \<^verbatim>\<open>('foo', 0)\<close>, which the source selector matches,
  is left tagged \<^verbatim>\<open>'out'\<close>.
\<close>

theorem overlapping_write_accepted:
  "map_sum id (\<lambda>p. (get_conns p, port_attr (interface p) (foo 0) ''io''))
     (build [[foo 0, foo 1], [bar 0]] [''conn'']
        [(([foo 0, bar 0], [foo 0], []), Scalar (VInt 1))]) =
     Inr ([(bar 0, foo 0), (foo 0, foo 0)], Some (VStr ''out''))"
  by code_simp

text \<open>
  C10. The same selectors with a value of the wrong shape (two values for the one
  column \<^verbatim>\<open>conn\<close>). The write is rejected and the tags stay written, but
  \<^verbatim>\<open>('foo', 0)\<close>, which the source selector matches, is left tagged \<^verbatim>\<open>'out'\<close>.
\<close>

theorem rejected_overlapping_write_tags:
  "Pattern_init [[foo 0, foo 1], [bar 0]] [''conn''] =
     Inr \<lparr>interface =
            \<lparr>columns = [''interface'', ''io'', ''type''],
             rows = [(foo 0, [(''interface'', VInt 0)]),
                     (foo 1, [(''interface'', VInt 0)]),
                     (bar 0, [(''interface'', VInt 1)])]\<rparr>,
          data = \<lparr>columns = [''conn''], rows = []\<rparr>\<rparr> \<and>
   Pattern_setitem
     \<lparr>interface =
        \<lparr>columns = [''interface'', ''io'', ''type''],
         rows = [(foo 0, [(''interface'', VInt 0)]),
                 (foo 1, [(''interface'', VInt 0)]),
                 (bar 0, [(''interface'', VInt 1)])]\<rparr>,
      data = \<lparr>columns = [''conn''], rows = []\<rparr>\<rparr>
     ([foo 0, bar 0], [foo 0], []) (OrderedValues [VInt 1, VInt 2]) =
     Inl (ValueShape,
       \<lparr>interface =
          \<lparr>columns = [''interface'', ''io'', ''type''],
           rows = [(foo 0, [(''interface'', VInt 0), (''io'', VStr ''out'')]),
                   (foo 1, [(''interface'', VInt 0)]),
                   (bar 0, [(''interface'', VInt 1), (''io'', VStr ''in'')])]\<rparr>,
        data = \<lparr>columns = [''conn''], rows = []\<rparr>\<rparr>)"
  by code_simp

section \<open>Queries through derived interfaces\<close>

text \<open>
  \<^verbatim>\<open>Interface.from_df\<close> never returns: either its assertion on the columns fails or
  its call of \<^verbatim>\<open>__validate_index__\<close> through the class raises \<^verbatim>\<open>TypeError\<close>. So
  neither does \<^verbatim>\<open>get_interface\<close>, nor \<^verbatim>\<open>src_idx\<close> and \<^verbatim>\<open>dest_idx\<close>, which
  fetch an interface first; and \<^verbatim>\<open>is_connected\<close>, which fetches one for the first
  edge whose \<^verbatim>\<open>conn\<close> is not 0, never returns \<^verbatim>\<open>True\<close>.
\<close>

lemma from_df_raises: "from_df df = Inl MissingColumns \<or> from_df df = Inl TypeError"
  by (simp add: from_df_def cls_validate_index_def)

lemma get_interface_raises: "\<exists>e. get_interface i n = Inl e"
  using from_df_raises [of "where_rows (\<lambda>r. cell r ''interface'' = VInt n) i"]
  by (auto simp: get_interface_def)

lemma typed_interface_raises: "\<exists>e. typed_interface i n ty = Inl e"
  using get_interface_raises [of i n]
  by (auto simp: typed_interface_def split: option.splits)

lemma src_idx_raises: "\<exists>e. src_idx p a b src_type dest_type dest_ports = Inl e"
  using typed_interface_raises [of "interface p" b dest_type]
  by (auto simp: src_idx_def)

lemma dest_idx_raises: "\<exists>e. dest_idx p a b src_type dest_type src_ports = Inl e"
  using typed_interface_raises [of "interface p" a src_type]
  by (auto simp: dest_idx_def)

lemma is_connected_loop_not_True: "is_connected_loop i a b ts \<noteq> Inr True"
proof (cases ts)
  case Nil
  then show ?thesis by simp
next
  case (Cons t ts')
  with get_interface_raises [of i a] show ?thesis by auto
qed

lemma is_connected_not_True: "is_connected p a b \<noteq> Inr True"
  by (simp add: is_connected_def is_connected_loop_not_True)

text \<open>
  C4. On the pattern of \<^verbatim>\<open>test_create\<close>, for which section 8 gives
  \<^verbatim>\<open>src_idx(0, 1, dest_ports='/bar[0]') = [('foo', 0)]\<close>, the call raises
  \<^verbatim>\<open>TypeError\<close>, and so does \<^verbatim>\<open>dest_idx(0, 1)\<close>.
\<close>

theorem src_idx_raises_on_test_create:
  "map_sum id (\<lambda>p. (src_idx p 0 1 None None (Some [bar 0]), dest_idx p 0 1 None None None))
     test_create = Inr (Inl TypeError, Inl TypeError)"
  by code_simp

text \<open>
  C7. On the same pattern, for which section 8 gives \<^verbatim>\<open>is_connected(0, 1) = true\<close>
  and \<^verbatim>\<open>is_connected(1, 0) = true\<close>, both calls raise \<^verbatim>\<open>TypeError\<close>.
\<close>

theorem is_connected_raises_on_test_create:
  "map_sum id (\<lambda>p. (is_connected p 0 1, is_connected p 1 0)) test_create =
     Inr (Inl TypeError, Inl TypeError)"
  by code_simp

section \<open>Compatibility\<close>

text \<open>
  When \<^verbatim>\<open>is_compatible\<close> returns \<^verbatim>\<open>True\<close> the two interfaces list the same
  identifiers in the same row order.
\<close>

lemma is_compatible_same_order:
  "is_compatible self a i b = Inr True \<Longrightarrow> ports self a = ports i b"
  by (auto simp: is_compatible_def ports_def Let_def split: if_splits)

text \<open>
  Two tables that list the same ports in the same row order: comparing two of their
  columns row by row is comparing them port by port.
\<close>

lemma zip_all_by_key:
  "map fst A = map fst B \<Longrightarrow> distinct (map fst A) \<Longrightarrow>
     list_all (\<lambda>(x, y). P x y) (zip (map (\<lambda>(k, r). f r) A) (map (\<lambda>(k, r). g r) B)) \<longleftrightarrow>
     (\<forall>k \<in> set (map fst A). \<exists>r s. map_of A k = Some r \<and> map_of B k = Some s \<and> P (f r) (g s))"
proof (induction A arbitrary: B)
  case Nil
  then show ?case by simp
next
  case (Cons a A)
  from Cons.prems(1) obtain b B' where B: "B = b # B'" by (cases B) auto
  obtain k r where a: "a = (k, r)" by (cases a)
  obtain k' s where b0: "b = (k', s)" by (cases b)
  from Cons.prems(1) B a b0 have kk: "k' = k" by simp
  from Cons.prems B have t: "map fst A = map fst B'" "distinct (map fst A)" by auto
  from Cons.prems(2) a have nk: "k \<notin> set (map fst A)" by simp
  have tail: "(\<forall>x \<in> set (map fst A). \<exists>r' s'. map_of (a # A) x = Some r'
                  \<and> map_of (b # B') x = Some s' \<and> P (f r') (g s')) \<longleftrightarrow>
        (\<forall>x \<in> set (map fst A). \<exists>r' s'. map_of A x = Some r' \<and> map_of B' x = Some s'
            \<and> P (f r') (g s'))"
  proof (rule ball_cong [OF refl])
    fix x assume "x \<in> set (map fst A)"
    with nk have "x \<noteq> k" by auto
    then show "(\<exists>r' s'. map_of (a # A) x = Some r' \<and> map_of (b # B') x = Some s'
                   \<and> P (f r') (g s')) \<longleftrightarrow>
               (\<exists>r' s'. map_of A x = Some r' \<and> map_of B' x = Some s' \<and> P (f r') (g s'))"
      by (simp add: a b0 kk)
  qed
  have head: "(\<exists>r' s'. map_of (a # A) k = Some r' \<and> map_of (b # B') k = Some s'
                 \<and> P (f r') (g s')) \<longleftrightarrow> P (f r) (g s)"
    by (simp add: a b0 kk)
  have "list_all (\<lambda>(x, y). P x y)
          (zip (map (\<lambda>(k, r). f r) (a # A)) (map (\<lambda>(k, r). g r) B)) \<longleftrightarrow>
        P (f r) (g s) \<and> list_all (\<lambda>(x, y). P x y)
          (zip (map (\<lambda>(k, r). f r) A) (map (\<lambda>(k, r). g r) B'))"
    by (simp add: B a b0)
  also have "\<dots> \<longleftrightarrow> P (f r) (g s) \<and>
      (\<forall>x \<in> set (map fst A). \<exists>r' s'. map_of A x = Some r' \<and> map_of B' x = Some s'
            \<and> P (f r') (g s'))"
    using Cons.IH [OF t] by simp
  also have "\<dots> \<longleftrightarrow> (\<forall>x \<in> set (map fst (a # A)). \<exists>r' s'. map_of (a # A) x = Some r'
                  \<and> map_of B x = Some s' \<and> P (f r') (g s'))"
    unfolding B using head tail by (simp add: a)
  finally show ?case .
qed

lemma map_of_filter_Some:
  "distinct (map fst xs) \<Longrightarrow> map_of (filter P xs) k = Some r \<Longrightarrow> map_of xs k = Some r"
  by (auto dest!: map_of_SomeD intro: map_of_is_SomeI)

lemma map_of_key_Some: "k \<in> set (map fst xs) \<Longrightarrow> \<exists>r. map_of xs k = Some r"
  by (cases "map_of xs k") (auto simp: map_of_eq_None_iff)

lemma io_is_set_row:
  "io_is_set i \<Longrightarrow> map_of (rows i) k = Some r \<Longrightarrow>
     cell r ''io'' = VStr ''in'' \<or> cell r ''io'' = VStr ''out''"
  by (force simp: io_is_set_def io_values_def dest!: map_of_SomeD)

lemma invert_opposite:
  assumes "x = VStr ''in'' \<or> x = VStr ''out''" and "y = VStr ''in'' \<or> y = VStr ''out''"
  shows "invert x = y \<longleftrightarrow>
           (Some x, Some y) \<in> {(Some (VStr ''in''), Some (VStr ''out'')),
                               (Some (VStr ''out''), Some (VStr ''in''))}"
  using assms by (auto simp: invert_def)

text \<open>
  C5, as the code has it, on tables in canonical order (rows sorted by identifier, each
  identifier once; this is the order \<^verbatim>\<open>Interface.__setitem__\<close> and
  \<^verbatim>\<open>Interface.from_dict\<close> sort a table into). The call fails when some row of either
  table, compared or not, has an \<^verbatim>\<open>io\<close> other than \<^verbatim>\<open>'in'\<close> and \<^verbatim>\<open>'out'\<close>.
  Otherwise it returns \<^verbatim>\<open>True\<close> exactly when interface \<open>a\<close> of the one table and
  interface \<open>b\<close> of the other comprise the same identifiers and every one of them is
  \<^verbatim>\<open>'in'\<close> in one table and \<^verbatim>\<open>'out'\<close> in the other.
\<close>

theorem is_compatible_canonical:
  assumes cols: "set required_columns \<subseteq> set (columns self)"
                "set required_columns \<subseteq> set (columns i)"
    and self: "sorted (index self)" "distinct (index self)"
    and i: "sorted (index i)" "distinct (index i)"
  shows "is_compatible self a i b =
     (if io_is_set self \<and> io_is_set i
      then Inr (set (ports self a) = set (ports i b) \<and>
                (\<forall>k \<in> set (ports self a).
                   (port_attr self k ''io'', port_attr i k ''io'') \<in>
                     {(Some (VStr ''in''), Some (VStr ''out'')),
                      (Some (VStr ''out''), Some (VStr ''in''))}))
      else Inl Direction)"
proof (cases "io_is_set self \<and> io_is_set i")
  case False
  with cols show ?thesis
    by (auto simp: is_compatible_def required_columns_def)
next
  case True
  define A where "A = filter (\<lambda>(k, r). cell r ''interface'' = VInt a) (rows self)"
  define B where "B = filter (\<lambda>(k, r). cell r ''interface'' = VInt b) (rows i)"
  from cols have pa: "ports self a = map fst A" and pb: "ports i b = map fst B"
    by (auto simp: ports_def required_columns_def index_def where_rows_def A_def B_def)
  from self have sA: "sorted (map fst A)" and dA: "distinct (map fst A)"
    by (simp_all add: A_def index_def sorted_filter distinct_map_filter)
  from i have sB: "sorted (map fst B)" and dB: "distinct (map fst B)"
    by (simp_all add: B_def index_def sorted_filter distinct_map_filter)
  have lists: "map fst A = map fst B \<longleftrightarrow> set (map fst A) = set (map fst B)"
  proof
    assume "map fst A = map fst B"
    then show "set (map fst A) = set (map fst B)" by (rule arg_cong)
  next
    assume "set (map fst A) = set (map fst B)"
    with sA dA sB dB show "map fst A = map fst B" by (rule sorted_distinct_set_unique)
  qed
  have code: "is_compatible self a i b =
      Inr (map fst A = map fst B \<and>
           list_all (\<lambda>(x, y). x = y)
             (zip (map (\<lambda>(k, r). invert (cell r ''io'')) A) (map (\<lambda>(k, r). cell r ''io'') B)))"
    using True cols
    by (simp add: is_compatible_def required_columns_def Let_def index_def where_rows_def
        io_values_def A_def B_def comp_def case_prod_unfold)
  have byport: "(\<forall>k \<in> set (map fst A). \<exists>r s. map_of A k = Some r \<and> map_of B k = Some s
                    \<and> invert (cell r ''io'') = cell s ''io'') \<longleftrightarrow>
        (\<forall>k \<in> set (map fst A).
           (port_attr self k ''io'', port_attr i k ''io'') \<in>
             {(Some (VStr ''in''), Some (VStr ''out'')),
              (Some (VStr ''out''), Some (VStr ''in''))})"
    if eq: "map fst A = map fst B"
  proof (rule ball_cong [OF refl])
    fix k assume k: "k \<in> set (map fst A)"
    then obtain r where r: "map_of A k = Some r" using map_of_key_Some by fastforce
    from k eq obtain s where s: "map_of B k = Some s" using map_of_key_Some by fastforce
    have rs: "map_of (rows self) k = Some r"
      using self(2) [unfolded index_def] r [unfolded A_def] by (rule map_of_filter_Some)
    have ri: "map_of (rows i) k = Some s"
      using i(2) [unfolded index_def] s [unfolded B_def] by (rule map_of_filter_Some)
    from True rs have vr: "cell r ''io'' = VStr ''in'' \<or> cell r ''io'' = VStr ''out''"
      by (auto dest: io_is_set_row)
    from True ri have vs: "cell s ''io'' = VStr ''in'' \<or> cell s ''io'' = VStr ''out''"
      by (auto dest: io_is_set_row)
    have "(\<exists>r' s'. map_of A k = Some r' \<and> map_of B k = Some s'
              \<and> invert (cell r' ''io'') = cell s' ''io'') \<longleftrightarrow>
          invert (cell r ''io'') = cell s ''io''"
      using r s by simp
    also have "\<dots> \<longleftrightarrow> (Some (cell r ''io''), Some (cell s ''io'')) \<in>
             {(Some (VStr ''in''), Some (VStr ''out'')),
              (Some (VStr ''out''), Some (VStr ''in''))}"
      using vr vs by (rule invert_opposite)
    also have "\<dots> \<longleftrightarrow> (port_attr self k ''io'', port_attr i k ''io'') \<in>
             {(Some (VStr ''in''), Some (VStr ''out'')),
              (Some (VStr ''out''), Some (VStr ''in''))}"
      using rs ri by (simp add: port_attr_def)
    finally show "(\<exists>r s. map_of A k = Some r \<and> map_of B k = Some s
              \<and> invert (cell r ''io'') = cell s ''io'') \<longleftrightarrow>
        (port_attr self k ''io'', port_attr i k ''io'') \<in>
             {(Some (VStr ''in''), Some (VStr ''out'')),
              (Some (VStr ''out''), Some (VStr ''in''))}" .
  qed
  show ?thesis
  proof (cases "map fst A = map fst B")
    case eq: True
    have z: "list_all (\<lambda>(x, y). x = y)
             (zip (map (\<lambda>(k, r). invert (cell r ''io'')) A) (map (\<lambda>(k, r). cell r ''io'') B)) \<longleftrightarrow>
          (\<forall>k \<in> set (map fst A). \<exists>r s. map_of A k = Some r \<and> map_of B k = Some s
                    \<and> invert (cell r ''io'') = cell s ''io'')"
      by (rule zip_all_by_key [OF eq dA])
    have "is_compatible self a i b =
       Inr (\<forall>k \<in> set (map fst A).
           (port_attr self k ''io'', port_attr i k ''io'') \<in>
             {(Some (VStr ''in''), Some (VStr ''out'')),
              (Some (VStr ''out''), Some (VStr ''in''))})"
      unfolding code z byport [OF eq] using eq by simp
    with True eq show ?thesis
      unfolding pa pb by simp
  next
    case False
    with lists have "set (map fst A) \<noteq> set (map fst B)" by simp
    with False True show ?thesis
      unfolding code pa pb by simp
  qed
qed

lemma test_interfaces_built:
  "tagged_interface [foo 0, foo 1] 0 ''out'' = Inr i_out \<and>
   tagged_interface [foo 0, foo 1] 1 ''in'' = Inr j_in \<and>
   tagged_interface [foo 1, foo 0] 0 ''out'' = Inr i_out_reversed \<and>
   map_sum fst id
     (case Interface_init [bar 0, foo 0, foo 1] required_columns of
        Inl e \<Rightarrow> Inl (e, i_out)
      | Inr i0 \<Rightarrow>
          (case Interface_setitem i0 [foo 0, foo 1] [''interface'', ''io'']
                  (OrderedValues [VInt 0, VStr ''out'']) of
             Inl e \<Rightarrow> Inl e
           | Inr i1 \<Rightarrow> Interface_setitem i1 [bar 0] [''interface''] (Scalar (VInt 2)))) =
     Inr i_out_extra"
  by code_simp

theorem is_compatible_canonical_witness:
  "is_compatible i_out 0 j_in 1 = Inr True \<and>
   is_compatible i_out_extra 0 j_in 1 = Inl Direction"
proof -
  have c: "set required_columns \<subseteq> set (columns i_out)"
          "set required_columns \<subseteq> set (columns j_in)"
          "set required_columns \<subseteq> set (columns i_out_extra)"
    by (simp_all add: required_columns_def i_out_def j_in_def i_out_extra_def)
  have o: "sorted (index i_out)" "distinct (index i_out)"
          "sorted (index j_in)" "distinct (index j_in)"
          "sorted (index i_out_extra)" "distinct (index i_out_extra)"
    by (simp_all add: index_def i_out_def j_in_def i_out_extra_def less_token_def)
  have 1: "(if io_is_set i_out \<and> io_is_set j_in
      then Inr (set (ports i_out 0) = set (ports j_in 1) \<and>
                (\<forall>k \<in> set (ports i_out 0).
                   (port_attr i_out k ''io'', port_attr j_in k ''io'') \<in>
                     {(Some (VStr ''in''), Some (VStr ''out'')),
                      (Some (VStr ''out''), Some (VStr ''in''))}))
      else Inl Direction) = Inr True"
    by code_simp
  have 2: "(if io_is_set i_out_extra \<and> io_is_set j_in
      then Inr (set (ports i_out_extra 0) = set (ports j_in 1) \<and>
                (\<forall>k \<in> set (ports i_out_extra 0).
                   (port_attr i_out_extra k ''io'', port_attr j_in k ''io'') \<in>
                     {(Some (VStr ''in''), Some (VStr ''out'')),
                      (Some (VStr ''out''), Some (VStr ''in''))}))
      else Inl Direction) = Inl Direction"
    by code_simp
  show ?thesis
    using is_compatible_canonical [OF c(1) c(2) o(1) o(2) o(3) o(4), of 0 1]
      is_compatible_canonical [OF c(3) c(2) o(5) o(6) o(3) o(4), of 0 1]
    unfolding 1 2 by simp
qed

text \<open>
  C5 as the specification states it fails twice. Interface 0 of \<open>i_out_reversed\<close> and
  interface 1 of \<open>j_in\<close> comprise the same two identifiers, each \<^verbatim>\<open>'out'\<close> in the one
  and \<^verbatim>\<open>'in'\<close> in the other, and the call returns \<^verbatim>\<open>False\<close>: the rows are in a
  different order. Interface 0 of \<open>i_out_extra\<close> is the same as that of \<open>i_out\<close> and
  no row that is compared has an unset \<^verbatim>\<open>io\<close>, and the call fails: a row of another
  interface has.
\<close>

theorem is_compatible_counterexample:
  "set (ports i_out_reversed 0) = set (ports j_in 1) \<and>
   list_all (\<lambda>k. port_attr i_out_reversed k ''io'' = Some (VStr ''out'')
                \<and> port_attr j_in k ''io'' = Some (VStr ''in'')) (ports j_in 1) \<and>
   is_compatible i_out_reversed 0 j_in 1 = Inr False \<and>
   set (ports i_out_extra 0) = set (ports j_in 1) \<and>
   list_all (\<lambda>k. port_attr i_out_extra k ''io'' = Some (VStr ''out'')
                \<and> port_attr j_in k ''io'' = Some (VStr ''in'')) (ports j_in 1) \<and>
   is_compatible i_out_extra 0 j_in 1 = Inl Direction"
  by code_simp

end
